theory Spec2Isabelle
  imports Complex_Main
begin

section \<open>The overscroll stretch shader of StretchShaderFactory.cpp\<close>

text \<open>
  The file holds two programs: the SkSL shader \<open>stretchShader\<close>, which remaps every
  sampled coordinate, and \<open>StretchShaderFactory::createSkShader\<close>, which derives the
  shader's uniforms from a \<open>StretchEffect\<close>.

  Numbers. Every \<open>float\<close> of the source is a \<^typ>\<open>real\<close> here: the arithmetic is
  exact, rounding and overflow of single precision are outside the model. A quotient
  whose divisor can be zero is a \<^typ>\<open>real option\<close>: \<open>None\<close> stands for the
  non-finite value (an infinity or NaN) that the division produces in the source, and
  it is handed on by everything computed from it, as a non-finite float is by the
  additions, subtractions and multiplications of the shader.

  The properties below are those that the exact model shares with the source: which
  branch is taken, which formula a branch evaluates, what the factory derives, and
  which inputs a result reads. Properties that compare two rounded results of the
  easing with each other, such as the order or the mirror symmetry of its outputs,
  depend on the rounding of single precision, and are not stated over this model.
\<close>

subsection \<open>Arithmetic and intrinsics\<close>

definition fdiv :: "real \<Rightarrow> real \<Rightarrow> real option" where
  \<comment> \<open>The source's \<open>a / b\<close> where \<open>b\<close> may be zero.\<close>
  "fdiv a b = (if b = 0 then None else Some (a / b))"

definition fadd :: "real option \<Rightarrow> real option \<Rightarrow> real option" where
  \<comment> \<open>Addition, subtraction and multiplication of values that may be non-finite.\<close>
  "fadd a b = (case (a, b) of (Some x, Some y) \<Rightarrow> Some (x + y) | _ \<Rightarrow> None)"

definition fsub :: "real option \<Rightarrow> real option \<Rightarrow> real option" where
  "fsub a b = (case (a, b) of (Some x, Some y) \<Rightarrow> Some (x - y) | _ \<Rightarrow> None)"

definition fmul :: "real option \<Rightarrow> real option \<Rightarrow> real option" where
  "fmul a b = (case (a, b) of (Some x, Some y) \<Rightarrow> Some (x * y) | _ \<Rightarrow> None)"

definition mix :: "real \<Rightarrow> real \<Rightarrow> real \<Rightarrow> real" where
  \<comment> \<open>The intrinsic \<open>mix(x, y, a)\<close> of the shading language: the linear blend
      \<open>x * (1 - a) + y * a\<close>.\<close>
  "mix x y a = x * (1 - a) + y * a"

definition lerp :: "real \<Rightarrow> real \<Rightarrow> real \<Rightarrow> real" where
  \<comment> \<open>The specification's \<open>lerp(a, b, t)\<close>: from \<open>a\<close> at \<open>t = 0\<close> to \<open>b\<close> at
      \<open>t = 1\<close>. Only used to state what the specification says about the easing.\<close>
  "lerp a b t = a + t * (b - a)"

subsection \<open>The shader: easing functions\<close>

definition easeIn :: "real \<Rightarrow> real \<Rightarrow> real" where
  "easeIn t d = t * d"

text \<open>
  The locals \<open>offsetPos\<close>, \<open>posBasedVariation\<close> and \<open>stretchIntensity\<close> of
  \<open>computeOverscrollStart\<close> and \<open>computeOverscrollEnd\<close> are functions of the
  arguments, so that statements about the divisor \<open>1. + stretchIntensity\<close> can name it.
\<close>

definition stretchIntensityStart :: "real \<Rightarrow> real \<Rightarrow> real \<Rightarrow> real \<Rightarrow> real \<Rightarrow> real" where
  "stretchIntensityStart inPos overscroll uStretchAffectedDist uInverseStretchAffectedDist
       interpolationStrength =
     (let offsetPos = uStretchAffectedDist - inPos;
          posBasedVariation =
            mix 1 (easeIn offsetPos uInverseStretchAffectedDist) interpolationStrength
      in overscroll * posBasedVariation)"

definition computeOverscrollStart ::
    "real \<Rightarrow> real \<Rightarrow> real \<Rightarrow> real \<Rightarrow> real \<Rightarrow> real \<Rightarrow> real option" where
  "computeOverscrollStart inPos overscroll uStretchAffectedDist uInverseStretchAffectedDist
       distanceStretched interpolationStrength =
     (let offsetPos = uStretchAffectedDist - inPos;
          stretchIntensity =
            stretchIntensityStart inPos overscroll uStretchAffectedDist
              uInverseStretchAffectedDist interpolationStrength
      in map_option (\<lambda>q. distanceStretched - q) (fdiv offsetPos (1 + stretchIntensity)))"

definition stretchIntensityEnd :: "real \<Rightarrow> real \<Rightarrow> real \<Rightarrow> real \<Rightarrow> real \<Rightarrow> real" where
  "stretchIntensityEnd inPos overscroll reverseStretchDist uInverseStretchAffectedDist
       interpolationStrength =
     (let offsetPos = inPos - reverseStretchDist;
          posBasedVariation =
            mix 1 (easeIn offsetPos uInverseStretchAffectedDist) interpolationStrength
      in (- overscroll) * posBasedVariation)"

definition computeOverscrollEnd ::
    "real \<Rightarrow> real \<Rightarrow> real \<Rightarrow> real \<Rightarrow> real \<Rightarrow> real \<Rightarrow> real \<Rightarrow> real option" where
  \<comment> \<open>The parameter \<open>uStretchAffectedDist\<close> is passed and never read, as in the source.\<close>
  "computeOverscrollEnd inPos overscroll reverseStretchDist uStretchAffectedDist
       uInverseStretchAffectedDist distanceStretched interpolationStrength =
     (let offsetPos = inPos - reverseStretchDist;
          stretchIntensity =
            stretchIntensityEnd inPos overscroll reverseStretchDist
              uInverseStretchAffectedDist interpolationStrength
      in map_option (\<lambda>q. 1 - (distanceStretched - q)) (fdiv offsetPos (1 + stretchIntensity)))"

subsection \<open>The shader: the piecewise remapping of one axis\<close>

text \<open>
  \<open>computeOverscroll\<close> starts from \<open>outPos = inPos\<close> and runs two \<open>if\<close> statements one
  after the other, the first for a positive and the second for a negative overscroll;
  the model keeps the two steps and their order.
\<close>

definition computeOverscroll ::
    "real \<Rightarrow> real \<Rightarrow> real \<Rightarrow> real \<Rightarrow> real \<Rightarrow> real \<Rightarrow> real \<Rightarrow> real option" where
  "computeOverscroll inPos overscroll uStretchAffectedDist uInverseStretchAffectedDist
       distanceStretched distanceDiff interpolationStrength =
     (let outPos0 = Some inPos;
          outPos1 =
            (if overscroll > 0 then
               (if inPos \<le> uStretchAffectedDist then
                  computeOverscrollStart inPos overscroll uStretchAffectedDist
                    uInverseStretchAffectedDist distanceStretched interpolationStrength
                else if inPos \<ge> distanceStretched then Some (distanceDiff + inPos)
                else outPos0)
             else outPos0);
          outPos2 =
            (if overscroll < 0 then
               (let stretchAffectedDist = 1 - uStretchAffectedDist in
                if inPos \<ge> stretchAffectedDist then
                  computeOverscrollEnd inPos overscroll stretchAffectedDist
                    uStretchAffectedDist uInverseStretchAffectedDist distanceStretched
                    interpolationStrength
                else if inPos < stretchAffectedDist then Some (- distanceDiff + inPos)
                else outPos1)
             else outPos1)
      in outPos2)"

subsection \<open>The shader: uniforms and \<open>main\<close>\<close>

text \<open>
  The uniforms of the shader, with the child shader \<open>uContentTexture\<close> as the function
  that \<open>eval\<close> applies to a coordinate. \<open>uMaxStretchIntensity\<close> is declared by the
  shader, never set by the factory and never read, and is left out. \<open>uScrollX\<close> and
  \<open>uScrollY\<close> are quotients by the viewport size, hence optional.
\<close>

type_synonym coord = "real option \<times> real option"

record 'c uniforms =
  uContentTexture :: "coord \<Rightarrow> 'c"
  uStretchAffectedDistX :: real
  uStretchAffectedDistY :: real
  uDistanceStretchedX :: real
  uDistanceStretchedY :: real
  uInverseDistanceStretchedX :: real
  uInverseDistanceStretchedY :: real
  uDistDiffX :: real
  uDistDiffY :: real
  uScrollX :: "real option"
  uScrollY :: "real option"
  uOverscrollX :: real
  uOverscrollY :: real
  viewportWidth :: real
  viewportHeight :: real
  uInterpolationStrength :: real

definition mainCoord :: "'c uniforms \<Rightarrow> real \<times> real \<Rightarrow> coord" where
  \<comment> \<open>The body of \<open>main\<close> up to the coordinate it hands to \<open>uContentTexture.eval\<close>,
      statement by statement; a later \<open>inU\<close> or \<open>outU\<close> shadows the earlier one as the
      assignment overwrites it. The local \<open>stretchIntensity\<close> of \<open>main\<close> is never
      used. The first assignments \<open>outU = inU\<close>, \<open>outV = inV\<close> are overwritten at
      once.\<close>
  "mainCoord u coord =
     (let inU = fdiv (fst coord) (viewportWidth u);
          inV = fdiv (snd coord) (viewportHeight u);
          inU = fadd inU (uScrollX u);
          inV = fadd inV (uScrollY u);
          outU = inU;
          outV = inV;
          outU = Option.bind inU (\<lambda>p.
                   computeOverscroll p (uOverscrollX u) (uStretchAffectedDistX u)
                     (uInverseDistanceStretchedX u) (uDistanceStretchedX u) (uDistDiffX u)
                     (uInterpolationStrength u));
          outV = Option.bind inV (\<lambda>p.
                   computeOverscroll p (uOverscrollY u) (uStretchAffectedDistY u)
                     (uInverseDistanceStretchedY u) (uDistanceStretchedY u) (uDistDiffY u)
                     (uInterpolationStrength u));
          x' = fmul (fsub outU (uScrollX u)) (Some (viewportWidth u));
          y' = fmul (fsub outV (uScrollY u)) (Some (viewportHeight u))
      in (x', y'))"

definition main :: "'c uniforms \<Rightarrow> real \<times> real \<Rightarrow> 'c" where
  "main u c = uContentTexture u (mainCoord u c)"

subsection \<open>The factory: parameter derivation\<close>

record FloatRect =
  left :: real
  top :: real
  right :: real
  bottom :: real

record StretchEffect =
  width :: real
  height :: real
  vectorX :: real
  vectorY :: real
  mappedChildBounds :: FloatRect

definition hasEffect :: "StretchEffect \<Rightarrow> bool" where
  \<comment> \<open>Modelled from the spec: \<open>StretchEffect::hasEffect\<close> is declared in StretchEffect.h,
      which is not among the sources at hand; it is true iff at least one of
      \<open>vectorX\<close>, \<open>vectorY\<close> is non-zero.\<close>
  "hasEffect e = (vectorX e \<noteq> 0 \<or> vectorY e \<noteq> 0)"

definition INTERPOLATION_STRENGTH_VALUE :: real where
  "INTERPOLATION_STRENGTH_VALUE = 7 / 10"

text \<open>
  \<open>createSkShader\<close> returns \<open>nullptr\<close> (\<open>None\<close>) for an effect without effect, and
  otherwise the shader made by the builder: the stretch shader with its child and
  uniforms set. The builder \<open>mBuilder\<close> is created on the first call and reused, and
  every call sets the child and each uniform the shader reads, so the result depends
  on the arguments only. The constant \<open>StretchEffect::CONTENT_DISTANCE_STRETCHED\<close> is
  declared in StretchEffect.h and is a parameter here (the first); the specification
  describes it as a positive constant, and the quotient \<open>1.f / CONTENT_DISTANCE_STRETCHED\<close>
  is a plain division. So are the quotients by \<open>1 + abs(...)\<close>, whose divisors are at
  least 1, with \<open>abs\<close> the absolute value of a float; the quotients by the viewport
  size are not. \<open>INTERPOLATION_STRENGTH_VALUE\<close>, the float nearest to 0.7 in the source,
  is 7/10.
\<close>

definition createSkShader ::
    "real \<Rightarrow> (coord \<Rightarrow> 'c) \<Rightarrow> StretchEffect \<Rightarrow> 'c uniforms option" where
  "createSkShader CONTENT_DISTANCE_STRETCHED inputShader stretchEffect =
     (if \<not> hasEffect stretchEffect then None
      else
        (let viewportWidth' = width stretchEffect;
             viewportHeight' = height stretchEffect;
             normOverScrollDistX = vectorX stretchEffect;
             normOverScrollDistY = vectorY stretchEffect;
             distanceStretchedX = CONTENT_DISTANCE_STRETCHED / (1 + \<bar>normOverScrollDistX\<bar>);
             distanceStretchedY = CONTENT_DISTANCE_STRETCHED / (1 + \<bar>normOverScrollDistY\<bar>);
             inverseDistanceStretchedX = 1 / CONTENT_DISTANCE_STRETCHED;
             inverseDistanceStretchedY = 1 / CONTENT_DISTANCE_STRETCHED;
             diffX = distanceStretchedX - CONTENT_DISTANCE_STRETCHED;
             diffY = distanceStretchedY - CONTENT_DISTANCE_STRETCHED;
             srcBounds = mappedChildBounds stretchEffect;
             normalizedScrollX = fdiv (left srcBounds) viewportWidth';
             normalizedScrollY = fdiv (top srcBounds) viewportHeight'
         in Some \<lparr>
              uContentTexture = inputShader,
              uStretchAffectedDistX = CONTENT_DISTANCE_STRETCHED,
              uStretchAffectedDistY = CONTENT_DISTANCE_STRETCHED,
              uDistanceStretchedX = distanceStretchedX,
              uDistanceStretchedY = distanceStretchedY,
              uInverseDistanceStretchedX = inverseDistanceStretchedX,
              uInverseDistanceStretchedY = inverseDistanceStretchedY,
              uDistDiffX = diffX,
              uDistDiffY = diffY,
              uScrollX = normalizedScrollX,
              uScrollY = normalizedScrollY,
              uOverscrollX = normOverScrollDistX,
              uOverscrollY = normOverScrollDistY,
              viewportWidth = viewportWidth',
              viewportHeight = viewportHeight',
              uInterpolationStrength = INTERPOLATION_STRENGTH_VALUE
            \<rparr>))"

subsection \<open>The caller's use of the factory\<close>

definition applyStretch ::
    "real \<Rightarrow> (coord \<Rightarrow> 'c) \<Rightarrow> StretchEffect \<Rightarrow> real \<times> real \<Rightarrow> 'c" where
  \<comment> \<open>Modelled from the spec: the render engine that calls \<open>createSkShader\<close> is not among
      the sources at hand. It samples the content through the stretch shader when the
      factory returns one, and falls back to a pass-through, the content sampled at the
      unmodified coordinate, when the factory returns \<open>nullptr\<close>.\<close>
  "applyStretch CONTENT_DISTANCE_STRETCHED inputShader stretchEffect c =
     (case createSkShader CONTENT_DISTANCE_STRETCHED inputShader stretchEffect of
        None \<Rightarrow> inputShader (Some (fst c), Some (snd c))
      | Some u \<Rightarrow> main u c)"

subsection \<open>Concrete inputs\<close>

text \<open>
  The scenario of the specification: an affected distance of 0.3 and an overscroll of
  0.5 on the horizontal axis only, on a viewport of 100 by 200 pixels whose visible
  content starts at (10, 20). A second effect differs from it on the vertical axis
  only, a third on the horizontal axis only, and a fourth has no overscroll at all.
\<close>

definition exampleEffect :: StretchEffect where
  "exampleEffect =
     \<lparr>width = 100, height = 200, vectorX = 1 / 2, vectorY = 0,
      mappedChildBounds = \<lparr>left = 10, top = 20, right = 110, bottom = 220\<rparr>\<rparr>"

definition exampleEffectY :: StretchEffect where
  "exampleEffectY =
     \<lparr>width = 100, height = 50, vectorX = 1 / 2, vectorY = - 1,
      mappedChildBounds = \<lparr>left = 10, top = 5, right = 110, bottom = 55\<rparr>\<rparr>"

definition exampleEffectX :: StretchEffect where
  "exampleEffectX =
     \<lparr>width = 80, height = 200, vectorX = - 1 / 4, vectorY = 0,
      mappedChildBounds = \<lparr>left = 8, top = 20, right = 88, bottom = 220\<rparr>\<rparr>"

definition idleEffect :: StretchEffect where
  "idleEffect =
     \<lparr>width = 100, height = 200, vectorX = 0, vectorY = 0,
      mappedChildBounds = \<lparr>left = 10, top = 20, right = 110, bottom = 220\<rparr>\<rparr>"

definition sampleAt :: "coord \<Rightarrow> coord" where
  \<comment> \<open>A content shader that returns the coordinate it is sampled at.\<close>
  "sampleAt c = c"

section \<open>Properties\<close>

subsection \<open>Auxiliary facts\<close>

lemma mix_eq_lerp: "mix a b t = lerp a b t"
  by (simp add: mix_def lerp_def algebra_simps)

lemma easing_denominator_ge_1:
  assumes "0 \<le> w" "0 \<le> s" "s \<le> 1" "0 \<le> off" "0 \<le> iv"
  shows "1 \<le> 1 + w * mix 1 (easeIn off iv) s"
proof -
  have "0 \<le> 1 * (1 - s) + (off * iv) * s"
    using assms by simp
  then have "0 \<le> w * mix 1 (easeIn off iv) s"
    using assms(1) by (simp add: mix_def easeIn_def)
  then show ?thesis by simp
qed

lemma start_value:
  assumes "0 < w" "0 \<le> s" "s \<le> 1" "0 \<le> iv" "q \<le> ad"
  shows "computeOverscrollStart q w ad iv ds s =
           Some (ds - (ad - q) / ((1 + w * (1 - s)) + (w * iv * s) * (ad - q)))"
proof -
  have "1 \<le> 1 + w * mix 1 (easeIn (ad - q) iv) s"
    using assms by (intro easing_denominator_ge_1) simp_all
  then have nz: "1 + w * mix 1 (easeIn (ad - q) iv) s \<noteq> 0" by linarith
  have eq: "1 + w * mix 1 (easeIn (ad - q) iv) s = (1 + w * (1 - s)) + (w * iv * s) * (ad - q)"
    by (simp add: mix_def easeIn_def algebra_simps)
  show ?thesis
    using nz unfolding computeOverscrollStart_def stretchIntensityStart_def Let_def fdiv_def eq
    by simp
qed

lemma end_value:
  assumes "w < 0" "0 \<le> s" "s \<le> 1" "0 \<le> iv" "r \<le> q"
  shows "computeOverscrollEnd q w r ad iv ds s =
           Some (1 - (ds - (q - r) / ((1 + (- w) * (1 - s)) + ((- w) * iv * s) * (q - r))))"
proof -
  have "1 \<le> 1 + (- w) * mix 1 (easeIn (q - r) iv) s"
    using assms by (intro easing_denominator_ge_1) simp_all
  then have nz: "1 + (- w) * mix 1 (easeIn (q - r) iv) s \<noteq> 0" by linarith
  have eq: "1 + (- w) * mix 1 (easeIn (q - r) iv) s
              = (1 + (- w) * (1 - s)) + ((- w) * iv * s) * (q - r)"
    by (simp add: mix_def easeIn_def algebra_simps)
  show ?thesis
    using nz unfolding computeOverscrollEnd_def stretchIntensityEnd_def Let_def fdiv_def eq
    by simp
qed

subsection \<open>The remapping of one axis\<close>

text \<open>
  C1. With \<open>overscroll > 0\<close>, \<open>computeOverscroll\<close> applies the start easing whenever
  \<open>inPos \<le> affectedDist\<close>; for \<open>inPos > affectedDist\<close> it returns the shift
  \<open>distanceDiff + inPos\<close> whenever \<open>inPos \<ge> distanceStretched\<close>; for
  \<open>affectedDist < inPos < distanceStretched\<close> it returns \<open>inPos\<close> unchanged. Where
  both region conditions hold (\<open>distanceStretched \<le> inPos \<le> affectedDist\<close>) the easing
  branch is the one taken.
\<close>

theorem computeOverscroll_start_regions:
  assumes "overscroll > 0"
  shows "(inPos \<le> affectedDist \<longrightarrow>
           computeOverscroll inPos overscroll affectedDist invAffectedDist distanceStretched
             distanceDiff interpolationStrength =
           computeOverscrollStart inPos overscroll affectedDist invAffectedDist
             distanceStretched interpolationStrength)
       \<and> (inPos > affectedDist \<and> inPos \<ge> distanceStretched \<longrightarrow>
           computeOverscroll inPos overscroll affectedDist invAffectedDist distanceStretched
             distanceDiff interpolationStrength = Some (distanceDiff + inPos))
       \<and> (affectedDist < inPos \<and> inPos < distanceStretched \<longrightarrow>
           computeOverscroll inPos overscroll affectedDist invAffectedDist distanceStretched
             distanceDiff interpolationStrength = Some inPos)
       \<and> (distanceStretched \<le> inPos \<and> inPos \<le> affectedDist \<longrightarrow>
           computeOverscroll inPos overscroll affectedDist invAffectedDist distanceStretched
             distanceDiff interpolationStrength =
           computeOverscrollStart inPos overscroll affectedDist invAffectedDist
             distanceStretched interpolationStrength)"
  using assms by (simp add: computeOverscroll_def)

theorem computeOverscroll_start_regions_witness:
  "(0::real) < 1 / 2
   \<and> computeOverscroll (1 / 4) (1 / 2) (3 / 10) (10 / 3) (1 / 5) (- 1 / 10) (7 / 10)
       = computeOverscrollStart (1 / 4) (1 / 2) (3 / 10) (10 / 3) (1 / 5) (7 / 10)
   \<and> computeOverscroll 1 (1 / 2) (3 / 10) (10 / 3) (1 / 5) (- 1 / 10) (7 / 10) = Some (9 / 10)
   \<and> computeOverscroll (1 / 2) (1 / 2) (1 / 4) 4 (3 / 4) (1 / 2) (7 / 10) = Some (1 / 2)"
  using
    computeOverscroll_start_regions [where overscroll = "1 / 2" and inPos = "1 / 4"
      and affectedDist = "3 / 10" and invAffectedDist = "10 / 3"
      and distanceStretched = "1 / 5" and distanceDiff = "- 1 / 10"
      and interpolationStrength = "7 / 10"]
    computeOverscroll_start_regions [where overscroll = "1 / 2" and inPos = 1
      and affectedDist = "3 / 10" and invAffectedDist = "10 / 3"
      and distanceStretched = "1 / 5" and distanceDiff = "- 1 / 10"
      and interpolationStrength = "7 / 10"]
    computeOverscroll_start_regions [where overscroll = "1 / 2" and inPos = "1 / 2"
      and affectedDist = "1 / 4" and invAffectedDist = 4
      and distanceStretched = "3 / 4" and distanceDiff = "1 / 2"
      and interpolationStrength = "7 / 10"]
  by simp

text \<open>
  C2. For \<open>overscroll > 0\<close> and \<open>inPos \<le> affectedDist\<close> the output is
  \<open>distanceStretched - offsetPos / (1 + overscroll * lerp(1, offsetPos * invAffectedDist,
  interpolationStrength))\<close> with \<open>offsetPos = affectedDist - inPos\<close>; for
  \<open>overscroll < 0\<close> and \<open>inPos \<ge> reverseStretchDist = 1 - affectedDist\<close> it is
  \<open>1 - (distanceStretched - offsetPos / (1 + (- overscroll) * lerp(...)))\<close> with
  \<open>offsetPos = inPos - reverseStretchDist\<close>. Where the divisor is zero the quotient,
  and with it the output, is not finite.
\<close>

theorem computeOverscroll_easing_formula:
  "(overscroll > 0 \<and> inPos \<le> affectedDist \<longrightarrow>
      computeOverscroll inPos overscroll affectedDist invAffectedDist distanceStretched
        distanceDiff interpolationStrength =
      (let offsetPos = affectedDist - inPos;
           d = 1 + overscroll * lerp 1 (offsetPos * invAffectedDist) interpolationStrength
       in if d = 0 then None else Some (distanceStretched - offsetPos / d)))
   \<and> (overscroll < 0 \<and> inPos \<ge> 1 - affectedDist \<longrightarrow>
      computeOverscroll inPos overscroll affectedDist invAffectedDist distanceStretched
        distanceDiff interpolationStrength =
      (let reverseStretchDist = 1 - affectedDist;
           offsetPos = inPos - reverseStretchDist;
           d = 1 + (- overscroll) * lerp 1 (offsetPos * invAffectedDist) interpolationStrength
       in if d = 0 then None else Some (1 - (distanceStretched - offsetPos / d))))"
  by (simp add: computeOverscroll_def computeOverscrollStart_def computeOverscrollEnd_def
      stretchIntensityStart_def stretchIntensityEnd_def fdiv_def mix_eq_lerp easeIn_def Let_def)

theorem computeOverscroll_easing_formula_witness:
  "computeOverscroll (1 / 4) (1 / 2) (3 / 10) (10 / 3) (1 / 5) (- 1 / 10) (7 / 10)
     = Some (23 / 145)
   \<and> computeOverscroll (9 / 10) (- 1 / 2) (3 / 10) (10 / 3) (1 / 5) (- 1 / 10) (7 / 10)
     = Some (392 / 415)"
  using
    computeOverscroll_easing_formula [where overscroll = "1 / 2" and inPos = "1 / 4"
      and affectedDist = "3 / 10" and invAffectedDist = "10 / 3"
      and distanceStretched = "1 / 5" and distanceDiff = "- 1 / 10"
      and interpolationStrength = "7 / 10"]
    computeOverscroll_easing_formula [where overscroll = "- 1 / 2" and inPos = "9 / 10"
      and affectedDist = "3 / 10" and invAffectedDist = "10 / 3"
      and distanceStretched = "1 / 5" and distanceDiff = "- 1 / 10"
      and interpolationStrength = "7 / 10"]
  by (simp add: lerp_def)

text \<open>
  C6. With \<open>overscroll = 0\<close> on an axis, \<open>computeOverscroll\<close> returns \<open>inPos\<close>
  unchanged, whatever the other parameters are: both \<open>if\<close> statements are skipped.
\<close>

theorem computeOverscroll_zero_identity:
  "computeOverscroll inPos 0 affectedDist invAffectedDist distanceStretched distanceDiff
     interpolationStrength = Some inPos"
  by (simp add: computeOverscroll_def)

text \<open>
  C9. For parameters derived by the factory from a positive \<open>CONTENT_DISTANCE_STRETCHED\<close>
  (affected distance \<open>cds\<close>, inverse \<open>1 / cds\<close>, stretched distance
  \<open>cds / (1 + |overscroll|)\<close>, difference \<open>distanceStretched - cds\<close>), with
  \<open>|overscroll| \<le> 1\<close>, an interpolation strength in [0,1] and \<open>inPos\<close> in [0,1] in the
  region of the selected easing branch, the divisor \<open>1 + stretchIntensity\<close> of that
  branch is at least 1 and \<open>computeOverscroll\<close> returns a finite value.
\<close>

theorem easing_divisor_derived:
  assumes "0 < cds" "\<bar>v\<bar> \<le> 1" "0 \<le> s" "s \<le> 1" "0 \<le> p" "p \<le> 1"
    and "ad = cds" "iv = 1 / cds" "ds = cds / (1 + \<bar>v\<bar>)" "dd = ds - cds"
  shows "(v > 0 \<and> p \<le> ad \<longrightarrow>
            1 \<le> 1 + stretchIntensityStart p v ad iv s
          \<and> (\<exists>y. computeOverscroll p v ad iv ds dd s = Some y))
       \<and> (v < 0 \<and> p \<ge> 1 - ad \<longrightarrow>
            1 \<le> 1 + stretchIntensityEnd p v (1 - ad) iv s
          \<and> (\<exists>y. computeOverscroll p v ad iv ds dd s = Some y))"
proof -
  have iv: "0 \<le> iv" using assms(1,8) by simp
  have start: "1 \<le> 1 + stretchIntensityStart p v ad iv s
          \<and> (\<exists>y. computeOverscroll p v ad iv ds dd s = Some y)" if "v > 0" "p \<le> ad"
  proof -
    have "1 \<le> 1 + v * mix 1 (easeIn (ad - p) iv) s"
      using that assms(3,4) iv by (intro easing_denominator_ge_1) simp_all
    then have "1 \<le> 1 + stretchIntensityStart p v ad iv s"
      by (simp add: stretchIntensityStart_def Let_def)
    moreover have "\<exists>y. computeOverscroll p v ad iv ds dd s = Some y"
      using that assms(3,4) iv by (simp add: computeOverscroll_def start_value)
    ultimately show ?thesis ..
  qed
  have "end": "1 \<le> 1 + stretchIntensityEnd p v (1 - ad) iv s
          \<and> (\<exists>y. computeOverscroll p v ad iv ds dd s = Some y)" if "v < 0" "p \<ge> 1 - ad"
  proof -
    have "1 \<le> 1 + (- v) * mix 1 (easeIn (p - (1 - ad)) iv) s"
      using that assms(3,4) iv by (intro easing_denominator_ge_1) simp_all
    then have "1 \<le> 1 + stretchIntensityEnd p v (1 - ad) iv s"
      by (simp add: stretchIntensityEnd_def Let_def)
    moreover have "\<exists>y. computeOverscroll p v ad iv ds dd s = Some y"
      using that assms(3,4) iv by (simp add: computeOverscroll_def end_value Let_def)
    ultimately show ?thesis ..
  qed
  from start "end" show ?thesis by blast
qed

theorem easing_divisor_derived_witness:
  "(0::real) < 3 / 10 \<and> \<bar>1 / 2 :: real\<bar> \<le> 1 \<and> (0::real) \<le> 7 / 10 \<and> (7 / 10 :: real) \<le> 1
   \<and> (0::real) \<le> 1 / 4 \<and> (1 / 4 :: real) \<le> 1
   \<and> (10 / 3 :: real) = 1 / (3 / 10) \<and> (1 / 5 :: real) = (3 / 10) / (1 + \<bar>1 / 2\<bar>)
   \<and> (- 1 / 10 :: real) = 1 / 5 - 3 / 10
   \<and> (0::real) < 1 / 2 \<and> (1 / 4 :: real) \<le> 3 / 10
   \<and> 1 \<le> 1 + stretchIntensityStart (1 / 4) (1 / 2) (3 / 10) (10 / 3) (7 / 10)
   \<and> (\<exists>y. computeOverscroll (1 / 4) (1 / 2) (3 / 10) (10 / 3) (1 / 5) (- 1 / 10) (7 / 10)
             = Some y)
   \<and> (- 1 / 2 :: real) < 0 \<and> (9 / 10 :: real) \<ge> 1 - 3 / 10
   \<and> 1 \<le> 1 + stretchIntensityEnd (9 / 10) (- 1 / 2) (1 - 3 / 10) (10 / 3) (7 / 10)
   \<and> (\<exists>y. computeOverscroll (9 / 10) (- 1 / 2) (3 / 10) (10 / 3) (1 / 5) (- 1 / 10) (7 / 10)
             = Some y)"
  using
    easing_divisor_derived [where cds = "3 / 10" and v = "1 / 2" and s = "7 / 10"
      and p = "1 / 4" and ad = "3 / 10" and iv = "10 / 3" and ds = "1 / 5"
      and dd = "- 1 / 10"]
    easing_divisor_derived [where cds = "3 / 10" and v = "- 1 / 2" and s = "7 / 10"
      and p = "9 / 10" and ad = "3 / 10" and iv = "10 / 3" and ds = "1 / 5"
      and dd = "- 1 / 10"]
  by simp

subsection \<open>The factory\<close>

text \<open>
  C7. For every \<open>StretchEffect\<close> with \<open>hasEffect()\<close> the factory makes a shader whose
  uniforms are, per axis: the stretched distance
  \<open>CONTENT_DISTANCE_STRETCHED / (1 + |overscroll|)\<close>, the inverse
  \<open>1 / CONTENT_DISTANCE_STRETCHED\<close> (of the constant, not of the stretched distance),
  the difference \<open>distanceStretched - CONTENT_DISTANCE_STRETCHED\<close>, and the scroll
  \<open>mappedChildBounds.left / width\<close>, respectively \<open>top / height\<close>. The affected
  distance of both axes is the constant itself.
\<close>

theorem createSkShader_parameters:
  assumes "hasEffect e"
  shows "\<exists>u. createSkShader cds tex e = Some u
     \<and> uStretchAffectedDistX u = cds
     \<and> uStretchAffectedDistY u = cds
     \<and> uDistanceStretchedX u = cds / (1 + \<bar>vectorX e\<bar>)
     \<and> uDistanceStretchedY u = cds / (1 + \<bar>vectorY e\<bar>)
     \<and> uInverseDistanceStretchedX u = 1 / cds
     \<and> uInverseDistanceStretchedY u = 1 / cds
     \<and> uDistDiffX u = uDistanceStretchedX u - cds
     \<and> uDistDiffY u = uDistanceStretchedY u - cds
     \<and> uScrollX u = fdiv (left (mappedChildBounds e)) (width e)
     \<and> uScrollY u = fdiv (top (mappedChildBounds e)) (height e)"
  using assms by (simp add: createSkShader_def Let_def)

theorem createSkShader_parameters_witness:
  "hasEffect exampleEffect
   \<and> (\<exists>u. createSkShader (3 / 10) sampleAt exampleEffect = Some u
     \<and> uStretchAffectedDistX u = 3 / 10
     \<and> uStretchAffectedDistY u = 3 / 10
     \<and> uDistanceStretchedX u = 1 / 5
     \<and> uDistanceStretchedY u = 3 / 10
     \<and> uInverseDistanceStretchedX u = 10 / 3
     \<and> uInverseDistanceStretchedY u = 10 / 3
     \<and> uDistDiffX u = - 1 / 10
     \<and> uDistDiffY u = 0
     \<and> uScrollX u = Some (1 / 10)
     \<and> uScrollY u = Some (1 / 10))"
proof -
  have h: "hasEffect exampleEffect"
    by (simp add: hasEffect_def exampleEffect_def)
  show ?thesis
    using createSkShader_parameters [OF h, of "3 / 10" sampleAt] h
    by (auto simp add: exampleEffect_def fdiv_def)
qed

text \<open>
  C8. For every \<open>StretchEffect\<close> without \<open>hasEffect()\<close> the factory makes no stretch
  shader, whatever the viewport size and the scroll offsets are, and the content is
  sampled at the unmodified input coordinate.
\<close>

theorem createSkShader_no_effect:
  assumes "\<not> hasEffect e"
  shows "createSkShader cds tex e = None
       \<and> applyStretch cds tex e c = tex (Some (fst c), Some (snd c))"
  using assms by (simp add: createSkShader_def applyStretch_def)

theorem createSkShader_no_effect_witness:
  "\<not> hasEffect idleEffect
   \<and> createSkShader (3 / 10) sampleAt idleEffect = None
   \<and> applyStretch (3 / 10) sampleAt idleEffect (25, 40) = (Some 25, Some 40)"
proof -
  have h: "\<not> hasEffect idleEffect"
    by (simp add: hasEffect_def idleEffect_def)
  show ?thesis
    using createSkShader_no_effect [OF h, of "3 / 10" sampleAt "(25, 40)"] h
    by (simp add: sampleAt_def)
qed



subsection \<open>The two axes\<close>

text \<open>
  C10. The two axes do not interfere. The remapped x coordinate that \<open>main\<close> samples at
  depends only on \<open>coord.x\<close>, \<open>viewportWidth\<close>, \<open>uScrollX\<close>, \<open>uOverscrollX\<close>, the
  parameters of the X axis and \<open>uInterpolationStrength\<close>: two evaluations that agree on
  these give the same x, whatever \<open>coord.y\<close> and the uniforms of the Y axis are. The
  same holds for the y coordinate with the axes exchanged.
\<close>

theorem mainCoord_axes_independent:
  "(fst c = fst c' \<and> viewportWidth u = viewportWidth u' \<and> uScrollX u = uScrollX u'
      \<and> uOverscrollX u = uOverscrollX u'
      \<and> uStretchAffectedDistX u = uStretchAffectedDistX u'
      \<and> uInverseDistanceStretchedX u = uInverseDistanceStretchedX u'
      \<and> uDistanceStretchedX u = uDistanceStretchedX u'
      \<and> uDistDiffX u = uDistDiffX u'
      \<and> uInterpolationStrength u = uInterpolationStrength u'
    \<longrightarrow> fst (mainCoord u c) = fst (mainCoord u' c'))
   \<and> (snd c = snd c' \<and> viewportHeight u = viewportHeight u' \<and> uScrollY u = uScrollY u'
      \<and> uOverscrollY u = uOverscrollY u'
      \<and> uStretchAffectedDistY u = uStretchAffectedDistY u'
      \<and> uInverseDistanceStretchedY u = uInverseDistanceStretchedY u'
      \<and> uDistanceStretchedY u = uDistanceStretchedY u'
      \<and> uDistDiffY u = uDistDiffY u'
      \<and> uInterpolationStrength u = uInterpolationStrength u'
    \<longrightarrow> snd (mainCoord u c) = snd (mainCoord u' c'))"
  by (simp add: mainCoord_def Let_def)

theorem mainCoord_axes_independent_witness:
  "\<exists>u uy ux.
      createSkShader (3 / 10) sampleAt exampleEffect = Some u
    \<and> createSkShader (3 / 10) sampleAt exampleEffectY = Some uy
    \<and> createSkShader (3 / 10) sampleAt exampleEffectX = Some ux
    \<and> uOverscrollY u = 0 \<and> uOverscrollY uy = - 1 \<and> viewportHeight uy = 50
    \<and> fst (mainCoord u (15, 40)) = fst (mainCoord uy (15, 30))
    \<and> fst (mainCoord u (15, 40)) = Some (170 / 29)
    \<and> uOverscrollX u = 1 / 2 \<and> uOverscrollX ux = - 1 / 4 \<and> viewportWidth ux = 80
    \<and> snd (mainCoord u (15, 40)) = snd (mainCoord ux (60, 40))
    \<and> snd (mainCoord u (15, 40)) = Some 40"
proof -
  let ?u = "the (createSkShader (3 / 10) sampleAt exampleEffect)"
  let ?uy = "the (createSkShader (3 / 10) sampleAt exampleEffectY)"
  let ?ux = "the (createSkShader (3 / 10) sampleAt exampleEffectX)"
  have u: "createSkShader (3 / 10) sampleAt exampleEffect = Some ?u"
    by (simp add: createSkShader_def hasEffect_def exampleEffect_def Let_def)
  have uy: "createSkShader (3 / 10) sampleAt exampleEffectY = Some ?uy"
    by (simp add: createSkShader_def hasEffect_def exampleEffectY_def Let_def)
  have ux: "createSkShader (3 / 10) sampleAt exampleEffectX = Some ?ux"
    by (simp add: createSkShader_def hasEffect_def exampleEffectX_def Let_def)
  have fields: "uOverscrollY ?u = 0" "uOverscrollY ?uy = - 1" "viewportHeight ?uy = 50"
      "uOverscrollX ?u = 1 / 2" "uOverscrollX ?ux = - 1 / 4" "viewportWidth ?ux = 80"
    by (simp_all add: createSkShader_def hasEffect_def exampleEffect_def exampleEffectY_def
        exampleEffectX_def Let_def)
  have x: "fst (mainCoord ?u (15, 40)) = fst (mainCoord ?uy (15, 30))"
    using mainCoord_axes_independent [of "(15, 40)" "(15, 30)" ?u ?uy]
    by (simp add: createSkShader_def hasEffect_def exampleEffect_def exampleEffectY_def Let_def)
  have y: "snd (mainCoord ?u (15, 40)) = snd (mainCoord ?ux (60, 40))"
    using mainCoord_axes_independent [of "(15, 40)" "(60, 40)" ?u ?ux]
    by (simp add: createSkShader_def hasEffect_def exampleEffect_def exampleEffectX_def Let_def)
  have vx: "fst (mainCoord ?u (15, 40)) = Some (170 / 29)"
    by (simp add: mainCoord_def createSkShader_def hasEffect_def exampleEffect_def Let_def
        fdiv_def fadd_def fsub_def fmul_def computeOverscroll_def computeOverscrollStart_def
        stretchIntensityStart_def mix_def easeIn_def INTERPOLATION_STRENGTH_VALUE_def)
  have vy: "snd (mainCoord ?u (15, 40)) = Some 40"
    by (simp add: mainCoord_def createSkShader_def hasEffect_def exampleEffect_def Let_def
        fdiv_def fadd_def fsub_def fmul_def computeOverscroll_def)
  from u uy ux fields x y vx vy show ?thesis by blast
qed

end
